theory Spec2Isabelle
  imports Complex_Main
begin

section \<open>Orbital state and proximity detection of \<^verbatim>\<open>satelite.py\<close>\<close>

text \<open>
  The program keeps its satellites as Python dictionaries with the keys
  \<^verbatim>\<open>id, type, theta, phi, r, x, y, z\<close>, generates them once, advances the azimuth of
  every one in place on each refresh and scans all index pairs for close approaches.

  Numbers: the source computes with IEEE doubles; the development below reads every
  floating-point operation as the operation on the reals it approximates, so
  \<open>sin\<close>, \<open>cos\<close>, \<open>sqrt\<close> and the float remainder are the exact ones.
\<close>

subsection \<open>Constants (lines 8 to 13)\<close>

definition NUM_LEO :: int where "NUM_LEO = 50"
definition NUM_GEO :: int where "NUM_GEO = 50"
definition EARTH_RADIUS :: real where "EARTH_RADIUS = 6371"
definition LEO_ALTITUDE :: real where "LEO_ALTITUDE = 2000"
definition GEO_ALTITUDE :: real where "GEO_ALTITUDE = 35786"
definition INITIAL_THRESHOLD :: real where "INITIAL_THRESHOLD = 100"

subsection \<open>The satellite dictionary\<close>

record sat =
  sat_id :: string
  sat_type :: string
  sat_theta :: real
  sat_phi :: real
  sat_r :: real
  sat_x :: real
  sat_y :: real
  sat_z :: real

subsection \<open>Library operations the source calls\<close>

text \<open>\<^verbatim>\<open>np.radians\<close>: degrees to radians.\<close>

definition radians :: "real \<Rightarrow> real" where
  "radians d = d * pi / 180"

text \<open>
  The remainder \<^verbatim>\<open>a % b\<close> on floats is the floored one, \<open>a - b * floor (a / b)\<close>;
  it raises \<^verbatim>\<open>ZeroDivisionError\<close> (Python) or yields NaN (NumPy) for \<open>b = 0\<close>. The only
  divisor in the source is the constant \<^verbatim>\<open>2 * np.pi\<close>, so that branch is never taken.
\<close>

definition py_mod :: "real \<Rightarrow> real \<Rightarrow> real" where
  "py_mod a b = a - b * of_int \<lfloor>a / b\<rfloor>"

text \<open>
  \<^verbatim>\<open>random.random()\<close> returns a value in \<open>[0, 1)\<close>. The generator is a parameter
  \<open>rnd\<close>: \<open>rnd k\<close> is the value of the \<open>k\<close>-th call, and the number of calls made so far
  is threaded through as explicit state. \<^verbatim>\<open>random.uniform(a, b)\<close> is
  \<^verbatim>\<open>a + (b - a) * random()\<close>.
\<close>

type_synonym rng = "nat \<Rightarrow> real"

definition rng_ok :: "rng \<Rightarrow> bool" where
  "rng_ok rnd = (\<forall>k. 0 \<le> rnd k \<and> rnd k < 1)"

definition uniform :: "rng \<Rightarrow> nat \<Rightarrow> real \<Rightarrow> real \<Rightarrow> real" where
  "uniform rnd k a b = a + (b - a) * rnd k"

text \<open>\<^verbatim>\<open>np.linalg.norm\<close> of a triple.\<close>

definition linalg_norm :: "real \<times> real \<times> real \<Rightarrow> real" where
  "linalg_norm v = (case v of (a, b, c) \<Rightarrow> sqrt (a\<^sup>2 + b\<^sup>2 + c\<^sup>2))"

text \<open>Decimal rendering of the ordinal in \<^verbatim>\<open>f"{label_prefix}_{i+1}"\<close>.\<close>

fun str_nat :: "nat \<Rightarrow> string" where
  "str_nat n = (if n < 10 then [''0123456789'' ! n]
                else str_nat (n div 10) @ [''0123456789'' ! (n mod 10)])"

declare str_nat.simps [simp del]

subsection \<open>\<^verbatim>\<open>generate_satellites\<close> (lines 16 to 35)\<close>

text \<open>One pass of the loop body: two draws, the radius, the position, the dictionary.\<close>

definition new_sat :: "rng \<Rightarrow> nat \<Rightarrow> nat \<Rightarrow> real \<Rightarrow> string \<Rightarrow> sat" where
  "new_sat rnd k i altitude label_prefix =
     (let theta = radians (uniform rnd k 0 180);
          phi = radians (uniform rnd (k + 1) 0 360);
          r = EARTH_RADIUS + altitude;
          x = r * sin theta * cos phi;
          y = r * sin theta * sin phi;
          z = r * cos theta
      in \<lparr> sat_id = label_prefix @ ''_'' @ str_nat (i + 1),
           sat_type = label_prefix,
           sat_theta = theta,
           sat_phi = phi,
           sat_r = r,
           sat_x = x,
           sat_y = y,
           sat_z = z \<rparr>)"

text \<open>
  The loop \<^verbatim>\<open>for i in range(num)\<close> with its state: the list built so far and the
  number of draws consumed.
\<close>

fun generate_loop :: "rng \<Rightarrow> real \<Rightarrow> string \<Rightarrow> nat list \<Rightarrow> sat list \<times> nat \<Rightarrow> sat list \<times> nat" where
  "generate_loop rnd altitude label_prefix [] st = st"
| "generate_loop rnd altitude label_prefix (i # rest) st =
     generate_loop rnd altitude label_prefix rest
       (fst st @ [new_sat rnd (snd st) i altitude label_prefix], snd st + 2)"

text \<open>
  \<^verbatim>\<open>range(num)\<close> is empty for \<open>num \<le> 0\<close>; there is no check of \<open>num\<close> or of
  \<open>altitude\<close> and no \<^verbatim>\<open>raise\<close> in the function.
\<close>

definition generate_satellites :: "rng \<Rightarrow> nat \<Rightarrow> int \<Rightarrow> real \<Rightarrow> string \<Rightarrow> sat list \<times> nat" where
  "generate_satellites rnd k num altitude label_prefix =
     generate_loop rnd altitude label_prefix [0..<nat num] ([], k)"

text \<open>Lines 37 to 39: the two shells, generated one after the other and concatenated.\<close>

definition all_sats :: "rng \<Rightarrow> sat list" where
  "all_sats rnd =
     (let (leo_sats, k) = generate_satellites rnd 0 NUM_LEO LEO_ALTITUDE ''LEO'';
          (geo_sats, k') = generate_satellites rnd k NUM_GEO GEO_ALTITUDE ''GEO''
      in leo_sats @ geo_sats)"

subsection \<open>\<^verbatim>\<open>update_positions\<close> (lines 42 to 48)\<close>

text \<open>The loop body on one dictionary.\<close>

definition advance_sat :: "real \<Rightarrow> sat \<Rightarrow> sat" where
  "advance_sat dphi s =
     (let s1 = s\<lparr> sat_phi := py_mod (sat_phi s + dphi) (2 * pi) \<rparr>;
          th = sat_theta s1; ph = sat_phi s1; r = sat_r s1;
          s2 = s1\<lparr> sat_x := r * sin th * cos ph \<rparr>;
          s3 = s2\<lparr> sat_y := r * sin th * sin ph \<rparr>
      in s3\<lparr> sat_z := r * cos th \<rparr>)"

text \<open>
  The function mutates the dictionaries of the list in place and returns nothing; the
  model returns the list after the loop. The list of the program holds each dictionary
  once, so the mutation through the list is the elementwise update.
\<close>

fun update_positions :: "sat list \<Rightarrow> real \<Rightarrow> sat list" where
  "update_positions [] dphi = []"
| "update_positions (s # sats) dphi = advance_sat dphi s # update_positions sats dphi"

subsection \<open>\<^verbatim>\<open>detect_collisions\<close> (lines 51 to 59)\<close>

definition pair_dist :: "sat \<Rightarrow> sat \<Rightarrow> real" where
  "pair_dist a b = linalg_norm (sat_x a - sat_x b, sat_y a - sat_y b, sat_z a - sat_z b)"

text \<open>The inner loop \<^verbatim>\<open>for j in range(i+1, len(sats))\<close>, with \<open>links\<close> as accumulator.\<close>

fun detect_inner :: "sat list \<Rightarrow> real \<Rightarrow> nat \<Rightarrow> nat list \<Rightarrow> (nat \<times> nat) list \<Rightarrow> (nat \<times> nat) list" where
  "detect_inner sats threshold i [] links = links"
| "detect_inner sats threshold i (j # rest) links =
     (let a = sats ! i; b = sats ! j;
          dist = pair_dist a b
      in detect_inner sats threshold i rest
           (if dist < threshold then links @ [(i, j)] else links))"

text \<open>The outer loop \<^verbatim>\<open>for i in range(len(sats))\<close>.\<close>

fun detect_outer :: "sat list \<Rightarrow> real \<Rightarrow> nat list \<Rightarrow> (nat \<times> nat) list \<Rightarrow> (nat \<times> nat) list" where
  "detect_outer sats threshold [] links = links"
| "detect_outer sats threshold (i # rest) links =
     detect_outer sats threshold rest
       (detect_inner sats threshold i [i + 1..<length sats] links)"

definition detect_collisions :: "sat list \<Rightarrow> real \<Rightarrow> (nat \<times> nat) list" where
  "detect_collisions sats threshold = detect_outer sats threshold [0..<length sats] []"

subsection \<open>\<^verbatim>\<open>make_figure\<close> and the callback (lines 73 to 166 and 204 to 213)\<close>

text \<open>
  What the plotting library receives, as data: the Earth surface, a marker trace (name,
  coordinates, \<^verbatim>\<open>customdata\<close>), a line between two satellites, the highlighted satellite.
  The figure is its traces and the camera eye, when one was set.
\<close>

datatype trace =
    Surface
  | Markers string "real list" "real list" "real list" "string list"
  | Line "real list" "real list" "real list"
  | Selected real real real

record figure =
  fig_data :: "trace list"
  scene_camera :: "(real \<times> real \<times> real) option"

text \<open>
  The info line: the fixed prompt, or the identifier, type and altitude of the selected
  satellite (the source formats these three into one string).
\<close>

datatype info = Prompt | Details string string real

text \<open>
  \<^verbatim>\<open>clickData\<close> is \<^verbatim>\<open>None\<close> or a dictionary; only its \<^verbatim>\<open>points\<close> list and the
  \<^verbatim>\<open>customdata\<close> of the first point are read. \<open>None\<close> stands for no dictionary or no
  \<^verbatim>\<open>points\<close> entry, and a point is the value under its \<^verbatim>\<open>customdata\<close> key, when it has
  one: reading it from a point without raises \<^verbatim>\<open>KeyError\<close>.
\<close>

type_synonym click_data = "string option list option"

text \<open>
  \<^verbatim>\<open>KeyError\<close> is what the source can raise; \<open>InvalidConfiguration\<close> is the error the
  specification names for initialisation, which no statement of the source raises.
\<close>

datatype py_error = KeyError | InvalidConfiguration

definition cams :: "string \<Rightarrow> (real \<times> real \<times> real) option" where
  "cams preset =
     (let R = EARTH_RADIUS + GEO_ALTITUDE
      in if preset = ''top'' then Some (0, 0, 3 * R)
         else if preset = ''equatorial'' then Some (3 * R, 0, 0)
         else if preset = ''side'' then Some (0, 3 * R, 0)
         else None)"

text \<open>
  The function reads and writes the global \<^verbatim>\<open>all_sats\<close>: the model takes the population
  and returns it, advanced, next to the result. The advance is the first statement, so
  the population is advanced also when the click handling raises.
\<close>

definition make_figure ::
  "sat list \<Rightarrow> real \<Rightarrow> click_data \<Rightarrow> string \<Rightarrow> (py_error + figure \<times> info) \<times> sat list" where
  "make_figure all_sats0 threshold clickData preset =
     (let all_sats = update_positions all_sats0 (radians 0.5);
          leo = filter (\<lambda>s. sat_type s = ''LEO'') all_sats;
          geo = filter (\<lambda>s. sat_type s = ''GEO'') all_sats;
          leo_trace = Markers ''LEO Satellites''
            (map sat_x leo) (map sat_y leo) (map sat_z leo) (map sat_id leo);
          geo_trace = Markers ''GEO Satellites''
            (map sat_x geo) (map sat_y geo) (map sat_z geo) (map sat_id geo);
          links = detect_collisions all_sats threshold;
          collision_traces =
            map (\<lambda>(i, j). let a = all_sats ! i; b = all_sats ! j
                           in Line [sat_x a, sat_x b] [sat_y a, sat_y b] [sat_z a, sat_z b])
              links;
          fig = \<lparr> fig_data = [Surface, leo_trace, geo_trace] @ collision_traces,
                  scene_camera = None \<rparr>;
          res =
            (case clickData of
               Some (p # ps) \<Rightarrow>
                 (case p of
                    None \<Rightarrow> Inl KeyError
                  | Some pid \<Rightarrow>
                      (case find (\<lambda>s. sat_id s = pid) all_sats of
                         Some sat \<Rightarrow>
                           Inr (\<lparr> fig_data = fig_data fig @
                                     [Selected (sat_x sat) (sat_y sat) (sat_z sat)],
                                   scene_camera =
                                     Some (sat_x sat / sat_r sat * 3,
                                           sat_y sat / sat_r sat * 3,
                                           sat_z sat / sat_r sat * 3) \<rparr>,
                                Details (sat_id sat) (sat_type sat) (sat_r sat - EARTH_RADIUS))
                       | None \<Rightarrow> Inr (fig, Prompt)))
             | _ \<Rightarrow>
                 if preset \<noteq> ''default''
                 then (case cams preset of
                         Some cam \<Rightarrow> Inr (fig\<lparr> scene_camera := Some cam \<rparr>, Prompt)
                       | None \<Rightarrow> Inr (fig, Prompt))
                 else Inr (fig, Prompt))
      in (res, all_sats))"

text \<open>
  The callback fires on the timer, on a click, on the threshold slider and on the camera
  preset alike, and does nothing but call \<^verbatim>\<open>make_figure\<close>.
\<close>

definition update_graph ::
  "sat list \<Rightarrow> int \<Rightarrow> click_data \<Rightarrow> real \<Rightarrow> string \<Rightarrow> (py_error + figure \<times> info) \<times> sat list" where
  "update_graph all_sats0 n_intervals clickData threshold preset =
     make_figure all_sats0 threshold clickData preset"

subsection \<open>The outcome of a call of \<^verbatim>\<open>generate_satellites\<close>\<close>

text \<open>
  A call ends with an exception or with a value. The body has no \<^verbatim>\<open>raise\<close>, and every
  operation in it is defined on every integer count and every real altitude, so the
  outcome is always the value.
\<close>

definition generate_satellites_outcome ::
  "rng \<Rightarrow> nat \<Rightarrow> int \<Rightarrow> real \<Rightarrow> string \<Rightarrow> py_error + sat list \<times> nat" where
  "generate_satellites_outcome rnd k num altitude label_prefix =
     Inr (generate_satellites rnd k num altitude label_prefix)"

subsection \<open>Properties of one satellite\<close>

text \<open>The position is the spherical-to-Cartesian image of \<open>(r, theta, phi)\<close>.\<close>

definition position_derived :: "sat \<Rightarrow> bool" where
  "position_derived s =
     (sat_x s = sat_r s * sin (sat_theta s) * cos (sat_phi s) \<and>
      sat_y s = sat_r s * sin (sat_theta s) * sin (sat_phi s) \<and>
      sat_z s = sat_r s * cos (sat_theta s))"

definition phi_wrapped :: "sat \<Rightarrow> bool" where
  "phi_wrapped s = (0 \<le> sat_phi s \<and> sat_phi s < 2 * pi)"

text \<open>Both together: the state of a satellite as the data model describes it.\<close>

definition well_formed :: "sat \<Rightarrow> bool" where
  "well_formed s = (phi_wrapped s \<and> position_derived s)"

text \<open>The Euclidean norm of the position is the radius.\<close>

definition on_shell :: "sat \<Rightarrow> bool" where
  "on_shell s = (sqrt ((sat_x s)\<^sup>2 + (sat_y s)\<^sup>2 + (sat_z s)\<^sup>2) = sat_r s)"

text \<open>\<open>s'\<close> differs from \<open>s\<close> at most in the azimuth and the three position fields.\<close>

definition same_frame :: "sat \<Rightarrow> sat \<Rightarrow> bool" where
  "same_frame s s' =
     (s' = s\<lparr> sat_phi := sat_phi s', sat_x := sat_x s', sat_y := sat_y s', sat_z := sat_z s' \<rparr>)"

text \<open>Any number of advances, one per element of \<open>ds\<close>.\<close>

definition advances :: "real list \<Rightarrow> sat list \<Rightarrow> sat list" where
  "advances ds sats = fold (\<lambda>d p. update_positions p d) ds sats"

text \<open>Sample data for the concrete checks: a generator that always returns 0.\<close>

definition rnd0 :: rng where
  "rnd0 = (\<lambda>k. 0)"

definition sat0 :: "real \<Rightarrow> sat" where
  "sat0 c = \<lparr> sat_id = ''LEO_1'', sat_type = ''LEO'', sat_theta = 0, sat_phi = 0,
             sat_r = c, sat_x = 0, sat_y = 0, sat_z = c \<rparr>"

section \<open>Auxiliary facts\<close>

subsection \<open>The float remainder\<close>

lemma py_mod_range:
  assumes "0 < b"
  shows "0 \<le> py_mod a b" and "py_mod a b < b"
proof -
  have lo: "of_int \<lfloor>a / b\<rfloor> \<le> a / b" by (rule of_int_floor_le)
  have hi: "a / b < of_int \<lfloor>a / b\<rfloor> + 1" by linarith
  from lo assms have "b * of_int \<lfloor>a / b\<rfloor> \<le> a"
    by (simp add: le_divide_eq mult.commute)
  then show "0 \<le> py_mod a b" by (simp add: py_mod_def)
  from hi assms have "a < (of_int \<lfloor>a / b\<rfloor> + 1) * b"
    by (simp only: pos_divide_less_eq)
  then show "py_mod a b < b" by (simp add: py_mod_def algebra_simps)
qed

lemma py_mod_small:
  assumes "0 \<le> a" and "a < b"
  shows "py_mod a b = a"
proof -
  from assms have "0 \<le> a / b" and "a / b < 1" by simp_all
  then have "\<lfloor>a / b\<rfloor> = 0" by (simp add: floor_eq_iff)
  then show ?thesis by (simp add: py_mod_def)
qed

lemma py_mod_add_period:
  assumes "b \<noteq> 0"
  shows "py_mod (a + b) b = py_mod a b"
proof -
  from assms have "(a + b) / b = a / b + 1" by (simp add: add_divide_distrib)
  then have "\<lfloor>(a + b) / b\<rfloor> = \<lfloor>a / b\<rfloor> + 1" by simp
  then show ?thesis by (simp add: py_mod_def algebra_simps)
qed


subsection \<open>Advancing\<close>

lemma update_positions_map: "update_positions sats dphi = map (advance_sat dphi) sats"
  by (induction sats) simp_all

lemma advance_sat_fields:
  "sat_id (advance_sat d s) = sat_id s"
  "sat_type (advance_sat d s) = sat_type s"
  "sat_theta (advance_sat d s) = sat_theta s"
  "sat_r (advance_sat d s) = sat_r s"
  "sat_phi (advance_sat d s) = py_mod (sat_phi s + d) (2 * pi)"
  "sat_x (advance_sat d s) = sat_r s * sin (sat_theta s) * cos (py_mod (sat_phi s + d) (2 * pi))"
  "sat_y (advance_sat d s) = sat_r s * sin (sat_theta s) * sin (py_mod (sat_phi s + d) (2 * pi))"
  "sat_z (advance_sat d s) = sat_r s * cos (sat_theta s)"
  by (simp_all add: advance_sat_def Let_def)

lemma advance_sat_eq:
  "advance_sat d s =
     s\<lparr> sat_phi := py_mod (sat_phi s + d) (2 * pi),
        sat_x := sat_r s * sin (sat_theta s) * cos (py_mod (sat_phi s + d) (2 * pi)),
        sat_y := sat_r s * sin (sat_theta s) * sin (py_mod (sat_phi s + d) (2 * pi)),
        sat_z := sat_r s * cos (sat_theta s) \<rparr>"
  by (simp add: advance_sat_def Let_def)

lemma sphere_norm:
  fixes c :: real
  assumes "0 \<le> c"
  shows "sqrt ((c * sin t * cos p)\<^sup>2 + (c * sin t * sin p)\<^sup>2 + (c * cos t)\<^sup>2) = c"
proof -
  have "(c * sin t * cos p)\<^sup>2 + (c * sin t * sin p)\<^sup>2
      = (c * sin t)\<^sup>2 * ((cos p)\<^sup>2 + (sin p)\<^sup>2)"
    by (simp only: power_mult_distrib distrib_left)
  also have "\<dots> = (c * sin t)\<^sup>2" by simp
  finally have xy: "(c * sin t * cos p)\<^sup>2 + (c * sin t * sin p)\<^sup>2 = (c * sin t)\<^sup>2" .
  have "(c * sin t)\<^sup>2 + (c * cos t)\<^sup>2 = c\<^sup>2 * ((sin t)\<^sup>2 + (cos t)\<^sup>2)"
    by (simp only: power_mult_distrib distrib_left)
  also have "\<dots> = c\<^sup>2" by simp
  finally have "(c * sin t * cos p)\<^sup>2 + (c * sin t * sin p)\<^sup>2 + (c * cos t)\<^sup>2 = c\<^sup>2"
    using xy by simp
  then show ?thesis using assms by simp
qed

lemma position_derived_on_shell:
  "position_derived s \<Longrightarrow> 0 \<le> sat_r s \<Longrightarrow> on_shell s"
  by (simp add: position_derived_def on_shell_def sphere_norm)

lemma advance_sat_derived: "position_derived (advance_sat d s)"
  by (simp add: position_derived_def advance_sat_fields)

lemma advance_sat_wrapped: "phi_wrapped (advance_sat d s)"
  using py_mod_range [of "2 * pi" "sat_phi s + d"]
  by (simp add: phi_wrapped_def advance_sat_fields)

lemma advances_map: "advances ds sats = map (fold advance_sat ds) sats"
proof (induction ds arbitrary: sats)
  case Nil
  show ?case by (simp add: advances_def)
next
  case (Cons d ds)
  have "advances (d # ds) sats = advances ds (update_positions sats d)"
    by (simp add: advances_def)
  also have "\<dots> = map (fold advance_sat ds) (map (advance_sat d) sats)"
    by (simp add: Cons.IH update_positions_map)
  finally show ?case by (simp add: comp_def)
qed

lemma fold_advance_inv:
  assumes "\<And>d s. P s \<Longrightarrow> P (advance_sat d s)"
  shows "P s \<Longrightarrow> P (fold advance_sat ds s)"
  using assms by (induction ds arbitrary: s) simp_all

lemma advances_all:
  assumes "\<And>d s. P s \<Longrightarrow> P (advance_sat d s)"
  shows "list_all P sats \<Longrightarrow> list_all P (advances ds sats)"
  using fold_advance_inv [of P, OF assms]
  by (simp add: advances_map list_all_iff)

subsection \<open>Generation\<close>

lemma new_sat_fields:
  "sat_r (new_sat rnd k i altitude l) = EARTH_RADIUS + altitude"
  "sat_type (new_sat rnd k i altitude l) = l"
  "sat_phi (new_sat rnd k i altitude l) = radians (360 * rnd (k + 1))"
  "sat_theta (new_sat rnd k i altitude l) = radians (180 * rnd k)"
  by (simp_all add: new_sat_def Let_def uniform_def)

lemma new_sat_derived: "position_derived (new_sat rnd k i altitude l)"
  by (simp add: position_derived_def new_sat_def Let_def)

lemma new_sat_wrapped: "rng_ok rnd \<Longrightarrow> phi_wrapped (new_sat rnd k i altitude l)"
proof -
  assume "rng_ok rnd"
  then have "0 \<le> rnd (k + 1)" and "rnd (k + 1) < 1" by (simp_all add: rng_ok_def)
  then have "0 \<le> 360 * rnd (k + 1) * pi / 180" and "360 * rnd (k + 1) * pi / 180 < 2 * pi"
    by simp_all
  then show ?thesis by (simp add: phi_wrapped_def new_sat_fields radians_def)
qed

lemma generate_loop_all:
  assumes "\<And>k i. P (new_sat rnd k i altitude l)"
  shows "list_all P (fst st) \<Longrightarrow> list_all P (fst (generate_loop rnd altitude l is st))"
  using assms by (induction "is" arbitrary: st) simp_all

lemma generate_loop_length:
  "length (fst (generate_loop rnd altitude l is st)) = length (fst st) + length is"
  by (induction "is" arbitrary: st) simp_all

lemma generate_loop_count:
  "snd (generate_loop rnd altitude l is st) = snd st + 2 * length is"
  by (induction "is" arbitrary: st) simp_all

lemma generate_satellites_all:
  assumes "\<And>k i. P (new_sat rnd k i altitude l)"
  shows "list_all P (fst (generate_satellites rnd k num altitude l))"
  unfolding generate_satellites_def
  by (rule generate_loop_all) (simp_all add: assms)

lemma generate_satellites_length:
  "length (fst (generate_satellites rnd k num altitude l)) = nat num"
  by (simp add: generate_satellites_def generate_loop_length)


subsection \<open>The pairwise scan\<close>

lemma detect_inner_eq:
  "detect_inner sats t i js links =
     links @ map (Pair i) (filter (\<lambda>j. pair_dist (sats ! i) (sats ! j) < t) js)"
  by (induction js arbitrary: links) (simp_all add: Let_def)

lemma detect_outer_eq:
  "detect_outer sats t is links =
     links @ concat (map (\<lambda>i. map (Pair i)
        (filter (\<lambda>j. pair_dist (sats ! i) (sats ! j) < t) [i + 1..<length sats])) is)"
  by (induction "is" arbitrary: links) (simp_all add: detect_inner_eq)

lemma detect_collisions_eq:
  "detect_collisions sats t =
     concat (map (\<lambda>i. map (Pair i)
        (filter (\<lambda>j. pair_dist (sats ! i) (sats ! j) < t) [i + 1..<length sats]))
        [0..<length sats])"
  by (simp add: detect_collisions_def detect_outer_eq)

lemma set_detect_collisions:
  "set (detect_collisions sats t) =
     {(i, j). i < j \<and> j < length sats \<and> pair_dist (sats ! i) (sats ! j) < t}"
  by (fastforce simp: detect_collisions_eq)

lemma distinct_concat_Pair:
  "distinct is \<Longrightarrow> (\<And>i. distinct (f i)) \<Longrightarrow>
     distinct (concat (map (\<lambda>i. map (Pair i) (f i)) is))"
  by (induction "is") (auto simp: distinct_map inj_on_def)

lemma distinct_detect_collisions: "distinct (detect_collisions sats t)"
  unfolding detect_collisions_eq
  by (rule distinct_concat_Pair) simp_all

lemma pair_dist_nonneg: "0 \<le> pair_dist a b"
  by (simp add: pair_dist_def linalg_norm_def)

subsection \<open>Invariants of generation and advance\<close>

lemma advance_sat_on_shell: "0 \<le> sat_r s \<Longrightarrow> on_shell (advance_sat d s)"
  by (rule position_derived_on_shell) (simp_all add: advance_sat_derived advance_sat_fields)

lemma advance_sat_well_formed: "well_formed (advance_sat d s)"
  by (simp add: well_formed_def advance_sat_derived advance_sat_wrapped)

lemma advance_sat_zero: "well_formed s \<Longrightarrow> advance_sat 0 s = s"
  by (simp add: well_formed_def phi_wrapped_def position_derived_def advance_sat_eq py_mod_small)

lemma advance_sat_full_turn:
  assumes "well_formed s"
  shows "advance_sat (2 * pi) s = s"
proof -
  from assms have "0 \<le> sat_phi s" and "sat_phi s < 2 * pi"
    by (simp_all add: well_formed_def phi_wrapped_def)
  then have "py_mod (sat_phi s + 2 * pi) (2 * pi) = sat_phi s"
    by (simp add: py_mod_add_period py_mod_small)
  with assms show ?thesis
    by (simp add: well_formed_def position_derived_def advance_sat_eq)
qed

lemma same_frame_iff:
  "same_frame s s' \<longleftrightarrow>
     sat_id s' = sat_id s \<and> sat_type s' = sat_type s \<and>
     sat_theta s' = sat_theta s \<and> sat_r s' = sat_r s"
  by (cases s, cases s') (auto simp: same_frame_def)

lemma same_frame_advance: "same_frame s (advance_sat d s)"
  by (simp add: same_frame_iff advance_sat_fields)

lemma same_frame_fold: "same_frame s (fold advance_sat ds s)"
proof (induction ds arbitrary: s)
  case Nil
  show ?case by (simp add: same_frame_iff)
next
  case (Cons d ds)
  from Cons.IH [of "advance_sat d s"] same_frame_advance [of s d]
  show ?case by (simp add: same_frame_iff)
qed

lemma new_sat_well_formed: "rng_ok rnd \<Longrightarrow> well_formed (new_sat rnd k i altitude l)"
  by (simp add: well_formed_def new_sat_derived new_sat_wrapped)

lemma generated_well_formed:
  "rng_ok rnd \<Longrightarrow>
     list_all well_formed (advances ds (fst (generate_satellites rnd k num altitude l)))"
  by (intro advances_all generate_satellites_all new_sat_well_formed advance_sat_well_formed)

lemma all_sats_well_formed:
  assumes "rng_ok rnd"
  shows "list_all well_formed (advances ds (all_sats rnd))"
proof -
  have "list_all well_formed (all_sats rnd)"
    using generate_satellites_all [of well_formed rnd, OF new_sat_well_formed [OF assms]]
    by (simp add: all_sats_def Let_def split_beta)
  then show ?thesis by (intro advances_all advance_sat_well_formed)
qed

lemma snd_make_figure:
  "snd (make_figure sats threshold clickData preset) = update_positions sats (radians 0.5)"
  unfolding make_figure_def by (simp only: Let_def snd_conv)

lemma half_degree_moves: "py_mod (p + pi / 360) (2 * pi) \<noteq> p"
proof
  assume "py_mod (p + pi / 360) (2 * pi) = p"
  then have "pi / 360 = 2 * pi * of_int \<lfloor>(p + pi / 360) / (2 * pi)\<rfloor>"
    by (simp add: py_mod_def)
  then have "pi * 1 = pi * (720 * of_int \<lfloor>(p + pi / 360) / (2 * pi)\<rfloor>)"
    by simp
  then have "(1::real) = 720 * of_int \<lfloor>(p + pi / 360) / (2 * pi)\<rfloor>"
    by (simp only: mult_cancel_left) simp
  then have "(of_int 1 :: real) = of_int (720 * \<lfloor>(p + pi / 360) / (2 * pi)\<rfloor>)"
    by simp
  then have "1 = 720 * \<lfloor>(p + pi / 360) / (2 * pi)\<rfloor>"
    by (simp only: of_int_eq_iff)
  then have "(720::int) dvd 1" by (rule dvdI)
  then show False by simp
qed

lemma all_sats_on_shell: "list_all on_shell (advances ds (all_sats rnd))"
proof -
  let ?P = "\<lambda>s. on_shell s \<and> 0 \<le> sat_r s"
  have new: "?P (new_sat rnd k i altitude l)" if "0 \<le> EARTH_RADIUS + altitude"
    for k i altitude l
    using that by (simp add: position_derived_on_shell new_sat_derived new_sat_fields)
  have step: "?P (advance_sat d s)" if "?P s" for d s
    using that by (simp add: advance_sat_on_shell advance_sat_fields)
  have leo: "list_all ?P (fst (generate_satellites rnd k NUM_LEO LEO_ALTITUDE ''LEO''))" for k
    by (intro generate_satellites_all new) (simp add: EARTH_RADIUS_def LEO_ALTITUDE_def)
  have geo: "list_all ?P (fst (generate_satellites rnd k NUM_GEO GEO_ALTITUDE ''GEO''))" for k
    by (intro generate_satellites_all new) (simp add: EARTH_RADIUS_def GEO_ALTITUDE_def)
  have "list_all ?P (all_sats rnd)"
    using leo geo by (simp add: all_sats_def Let_def split_beta)
  then have "list_all ?P (advances ds (all_sats rnd))"
    by (intro advances_all step)
  then show ?thesis by (simp add: list_all_iff)
qed

subsection \<open>Concrete runs\<close>

text \<open>
  Two satellites on the polar axis at radii 1 and 4 are at distance 3: not reported at
  threshold 3, reported at 3.5. Two at the same point are reported at any positive
  threshold. An advance by \<open>-1\<close> from azimuth 0 wraps to \<open>2\<pi> - 1\<close>.
\<close>

lemma upt_two: "[0..<2] = [0, Suc 0]" "[Suc 0..<2] = [Suc 0]" "[2..<2] = []"
  by (simp_all add: upt_rec)

lemma detect_collisions_examples:
  "detect_collisions [sat0 1, sat0 4] 3 = [] \<and>
   detect_collisions [sat0 1, sat0 4] (7 / 2) = [(0, 1)] \<and>
   detect_collisions [sat0 1, sat0 1] (1 / 1000) = [(0, 1)]"
  by (simp add: detect_collisions_def upt_two pair_dist_def linalg_norm_def sat0_def Let_def)

lemma wrap_below_zero: "map sat_phi (update_positions [sat0 1] (- 1)) = [2 * pi - 1]"
proof -
  have "1 \<le> 2 * pi" using pi_ge_two by linarith
  then have "- 1 \<le> - 1 / (2 * pi)" and "- 1 / (2 * pi) < 0"
    by (simp_all add: field_simps)
  then have "\<lfloor>- 1 / (2 * pi)\<rfloor> = - 1" by (simp add: floor_eq_iff)
  then have "py_mod (- 1) (2 * pi) = 2 * pi - 1" by (simp add: py_mod_def)
  then show ?thesis by (simp add: advance_sat_fields sat0_def)
qed

section \<open>The claims\<close>

text \<open>
  Claim C1. For every population and every threshold, the list \<^verbatim>\<open>detect_collisions\<close>
  returns holds exactly the index pairs \<open>(i, j)\<close> with \<open>i < j\<close>, both indices of the
  population, whose Euclidean distance is strictly below the threshold; a pair at distance
  equal to the threshold fails the strict test and is left out. The list has no repeated
  entry, and since every entry has \<open>i < j\<close> no pair occurs in both orders.
\<close>

theorem detect_collisions_exact:
  "set (detect_collisions sats threshold) =
     {(i, j). i < j \<and> j < length sats \<and>
        sqrt ((sat_x (sats ! i) - sat_x (sats ! j))\<^sup>2 +
              (sat_y (sats ! i) - sat_y (sats ! j))\<^sup>2 +
              (sat_z (sats ! i) - sat_z (sats ! j))\<^sup>2) < threshold}
   \<and> distinct (detect_collisions sats threshold)"
  by (simp add: set_detect_collisions distinct_detect_collisions pair_dist_def linalg_norm_def)

text \<open>
  Claim C2. \<^verbatim>\<open>update_positions\<close> replaces, in every satellite of the list, the azimuth by
  \<open>(phi + dphi) mod 2\<pi>\<close> and the position by the spherical-to-Cartesian image of the
  radius, the polar angle and the new azimuth, and touches nothing else. With
  \<open>dphi = 0\<close> a population in the state the data model describes (azimuth in
  \<open>[0, 2\<pi>)\<close>, position derived from the angles) is left as it is. Every population
  the program builds and advances is in that state (\<open>generated_well_formed\<close>,
  \<open>all_sats_well_formed\<close>).
\<close>

theorem update_positions_contract:
  "update_positions sats dphi =
     map (\<lambda>s. s\<lparr> sat_phi := py_mod (sat_phi s + dphi) (2 * pi),
                  sat_x := sat_r s * sin (sat_theta s) * cos (py_mod (sat_phi s + dphi) (2 * pi)),
                  sat_y := sat_r s * sin (sat_theta s) * sin (py_mod (sat_phi s + dphi) (2 * pi)),
                  sat_z := sat_r s * cos (sat_theta s) \<rparr>) sats
   \<and> (list_all well_formed sats \<longrightarrow> update_positions sats 0 = sats)"
proof
  show "update_positions sats dphi =
     map (\<lambda>s. s\<lparr> sat_phi := py_mod (sat_phi s + dphi) (2 * pi),
                  sat_x := sat_r s * sin (sat_theta s) * cos (py_mod (sat_phi s + dphi) (2 * pi)),
                  sat_y := sat_r s * sin (sat_theta s) * sin (py_mod (sat_phi s + dphi) (2 * pi)),
                  sat_z := sat_r s * cos (sat_theta s) \<rparr>) sats"
    by (induction sats) (simp_all add: advance_sat_eq)
  show "list_all well_formed sats \<longrightarrow> update_positions sats 0 = sats"
    by (simp add: update_positions_map list_all_iff map_idI advance_sat_zero)
qed

text \<open>
  At a satellite on the polar axis: an advance by 0 changes nothing, an advance by \<open>\<pi>\<close>
  moves the azimuth to \<open>\<pi>\<close> and recomputes the same pole position.
\<close>

theorem update_positions_contract_witness:
  "list_all well_formed [sat0 1] \<and> update_positions [sat0 1] 0 = [sat0 1]
   \<and> update_positions [sat0 1] pi =
       [\<lparr> sat_id = ''LEO_1'', sat_type = ''LEO'', sat_theta = 0, sat_phi = pi,
          sat_r = 1, sat_x = 0, sat_y = 0, sat_z = 1 \<rparr>]"
proof -
  have wf: "list_all well_formed [sat0 1]"
    by (simp add: well_formed_def phi_wrapped_def position_derived_def sat0_def)
  have "\<lfloor>pi / (2 * pi)\<rfloor> = 0" by (simp add: floor_eq_iff)
  then have "py_mod pi (2 * pi) = pi" by (simp add: py_mod_def)
  then have turned: "update_positions [sat0 1] pi =
       [\<lparr> sat_id = ''LEO_1'', sat_type = ''LEO'', sat_theta = 0, sat_phi = pi,
          sat_r = 1, sat_x = 0, sat_y = 0, sat_z = 1 \<rparr>]"
    using update_positions_contract [of "[sat0 1]" pi, THEN conjunct1] by (simp add: sat0_def)
  have still: "update_positions [sat0 1] 0 = [sat0 1]"
    using wf update_positions_contract [of "[sat0 1]" 0] by blast
  from wf still turned show ?thesis by blast
qed

text \<open>
  Claim C3. With a threshold of zero or below no pair is reported, whatever the
  population: a distance is never negative. A negative threshold therefore gives the
  result of threshold zero, and the function returns a list in every case.
\<close>

theorem detect_nonpositive_threshold:
  "threshold \<le> 0 \<Longrightarrow>
     detect_collisions sats threshold = [] \<and>
     detect_collisions sats threshold = detect_collisions sats 0"
proof -
  have empty: "detect_collisions sats t = []" if "t \<le> 0" for t
  proof -
    have "\<not> pair_dist a b < t" for a b
      using pair_dist_nonneg [of a b] that by simp
    then show ?thesis by (simp add: detect_collisions_eq)
  qed
  assume "threshold \<le> 0"
  then show ?thesis by (simp add: empty)
qed

text \<open>
  Two satellites at the same point, distance 0, threshold \<open>-1\<close>.
\<close>

theorem detect_nonpositive_threshold_witness:
  "(-1::real) \<le> 0 \<and> detect_collisions [sat0 1, sat0 1] (-1) = [] \<and>
   detect_collisions [sat0 1, sat0 1] (-1) = detect_collisions [sat0 1, sat0 1] 0"
proof -
  have neg: "(-1::real) \<le> 0" by simp
  from neg detect_nonpositive_threshold [OF neg, of "[sat0 1, sat0 1]"]
  show ?thesis by blast
qed

text \<open>
  Claim C4. For a fixed population, raising the threshold only adds pairs.
\<close>

theorem detect_monotonic:
  "t1 < t2 \<Longrightarrow> set (detect_collisions sats t1) \<subseteq> set (detect_collisions sats t2)"
  by (auto simp: set_detect_collisions)

text \<open>
  Two satellites on the polar axis at radii 1 and 4, thresholds 1 and 5.
\<close>

theorem detect_monotonic_witness:
  "(1::real) < 5 \<and>
   set (detect_collisions [sat0 1, sat0 4] 1) \<subseteq> set (detect_collisions [sat0 1, sat0 4] 5)"
  using detect_monotonic [of 1 5 "[sat0 1, sat0 4]"] by simp

text \<open>
  Claim C5. Every satellite \<^verbatim>\<open>generate_satellites\<close> creates lies on the sphere of its
  radius, at creation (\<open>ds = []\<close>) and after any sequence of advances, for every
  altitude that gives a radius \<open>EARTH_RADIUS + altitude\<close> that is not negative (the
  specification takes the altitude positive). For the two shells of the program this is
  \<open>all_sats_on_shell\<close>, with no condition left.
\<close>

theorem position_on_shell:
  assumes "0 \<le> EARTH_RADIUS + altitude"
  shows "list_all on_shell
           (advances ds (fst (generate_satellites rnd k num altitude label_prefix)))"
proof -
  let ?P = "\<lambda>s. on_shell s \<and> 0 \<le> sat_r s"
  have new: "?P (new_sat rnd k i altitude label_prefix)" for k i
    using assms by (simp add: position_derived_on_shell new_sat_derived new_sat_fields)
  have step: "?P (advance_sat d s)" if "?P s" for d s
    using that by (simp add: advance_sat_on_shell advance_sat_fields)
  have "list_all ?P (advances ds (fst (generate_satellites rnd k num altitude label_prefix)))"
    by (intro advances_all generate_satellites_all new step)
  then show ?thesis by (simp add: list_all_iff)
qed

text \<open>
  The low shell of the program, advanced twice by half a degree.
\<close>

theorem position_on_shell_witness:
  "0 \<le> EARTH_RADIUS + LEO_ALTITUDE \<and>
   list_all on_shell
     (advances [radians 0.5, radians 0.5] (fst (generate_satellites rnd0 0 NUM_LEO LEO_ALTITUDE ''LEO'')))"
proof -
  have pos: "0 \<le> EARTH_RADIUS + LEO_ALTITUDE"
    by (simp add: EARTH_RADIUS_def LEO_ALTITUDE_def)
  from pos position_on_shell [OF pos] show ?thesis by blast
qed

text \<open>
  Claim C6. Any sequence of advances, and a call of \<^verbatim>\<open>make_figure\<close>, leaves the
  population's length and order and, in every satellite, every field but the azimuth and
  the three position fields as they were: identifier, type, polar angle and radius are
  unchanged.
\<close>

theorem advance_frame:
  "list_all2 same_frame sats (advances ds sats) \<and>
   map (\<lambda>s. (sat_id s, sat_type s, sat_theta s, sat_r s)) (advances ds sats) =
     map (\<lambda>s. (sat_id s, sat_type s, sat_theta s, sat_r s)) sats \<and>
   list_all2 same_frame sats (snd (make_figure sats threshold clickData preset))"
proof (intro conjI)
  show "list_all2 same_frame sats (advances ds sats)"
    by (simp add: advances_map list_all2_map2 list_all2_same same_frame_fold)
  show "map (\<lambda>s. (sat_id s, sat_type s, sat_theta s, sat_r s)) (advances ds sats) =
     map (\<lambda>s. (sat_id s, sat_type s, sat_theta s, sat_r s)) sats"
    using same_frame_fold [of _ ds] by (simp add: advances_map same_frame_iff)
  show "list_all2 same_frame sats (snd (make_figure sats threshold clickData preset))"
    by (simp add: snd_make_figure update_positions_map list_all2_map2 list_all2_same
        same_frame_advance)
qed

text \<open>
  Claim C7. With a generator whose draws lie in \<open>[0, 1)\<close>, the azimuth of every created
  satellite lies in \<open>[0, 2\<pi>)\<close> at creation and after any sequence of advances. After
  an advance of any population by any step the azimuth lies in \<open>[0, 2\<pi>)\<close>, and it is
  the sum \<open>phi + dphi\<close> less a whole number of turns: wrapped, not clamped.
\<close>

theorem azimuth_in_range:
  assumes "rng_ok rnd"
  shows "list_all phi_wrapped
           (advances ds (fst (generate_satellites rnd k num altitude label_prefix))) \<and>
         list_all phi_wrapped (update_positions sats dphi) \<and>
         list_all2 (\<lambda>s s'. sat_phi s' =
                      sat_phi s + dphi - 2 * pi * of_int \<lfloor>(sat_phi s + dphi) / (2 * pi)\<rfloor>)
           sats (update_positions sats dphi)"
proof (intro conjI)
  show "list_all phi_wrapped
          (advances ds (fst (generate_satellites rnd k num altitude label_prefix)))"
    by (intro advances_all generate_satellites_all new_sat_wrapped assms advance_sat_wrapped)
  show "list_all phi_wrapped (update_positions sats dphi)"
    by (simp add: update_positions_map list_all_iff advance_sat_wrapped)
  show "list_all2 (\<lambda>s s'. sat_phi s' =
                      sat_phi s + dphi - 2 * pi * of_int \<lfloor>(sat_phi s + dphi) / (2 * pi)\<rfloor>)
           sats (update_positions sats dphi)"
    by (simp add: update_positions_map list_all2_map2 list_all2_same advance_sat_fields py_mod_def)
qed

text \<open>
  The generator that always draws 0, the low shell advanced by half a degree, and one
  satellite advanced by \<open>-1\<close>.
\<close>

theorem azimuth_in_range_witness:
  "rng_ok rnd0 \<and>
   list_all phi_wrapped
     (advances [radians 0.5] (fst (generate_satellites rnd0 0 NUM_LEO LEO_ALTITUDE ''LEO''))) \<and>
   list_all phi_wrapped (update_positions [sat0 1] (- 1))"
proof -
  have ok: "rng_ok rnd0" by (simp add: rng_ok_def rnd0_def)
  from ok azimuth_in_range [OF ok] show ?thesis by blast
qed

text \<open>
  Claim C8. In a population whose azimuths lie in \<open>[0, 2\<pi>)\<close> an advance of
  \<open>2\<pi>\<close> returns every azimuth to its value before; with the positions derived from
  the angles, as the data model has them and as generation and every advance leave them
  (\<open>new_sat_derived\<close>, \<open>advance_sat_derived\<close>), the whole population is unchanged:
  azimuth and position of every satellite are the ones before.
\<close>

theorem full_turn_identity:
  assumes "list_all phi_wrapped sats"
  shows "map sat_phi (update_positions sats (2 * pi)) = map sat_phi sats \<and>
         (list_all position_derived sats \<longrightarrow> update_positions sats (2 * pi) = sats)"
proof
  have turn: "py_mod (sat_phi s + 2 * pi) (2 * pi) = sat_phi s" if "s \<in> set sats" for s
    using that assms
    by (simp add: list_all_iff phi_wrapped_def py_mod_add_period py_mod_small)
  then show "map sat_phi (update_positions sats (2 * pi)) = map sat_phi sats"
    by (simp add: update_positions_map advance_sat_fields)
  show "list_all position_derived sats \<longrightarrow> update_positions sats (2 * pi) = sats"
  proof
    assume "list_all position_derived sats"
    with assms have "advance_sat (2 * pi) s = s" if "s \<in> set sats" for s
      using that by (simp add: list_all_iff advance_sat_full_turn well_formed_def)
    then show "update_positions sats (2 * pi) = sats"
      by (simp add: update_positions_map map_idI)
  qed
qed

text \<open>
  Two satellites on the polar axis.
\<close>

theorem full_turn_identity_witness:
  "list_all phi_wrapped [sat0 1, sat0 4] \<and> list_all position_derived [sat0 1, sat0 4] \<and>
   update_positions [sat0 1, sat0 4] (2 * pi) = [sat0 1, sat0 4]"
proof -
  have wr: "list_all phi_wrapped [sat0 1, sat0 4]"
    by (simp add: phi_wrapped_def sat0_def)
  have de: "list_all position_derived [sat0 1, sat0 4]"
    by (simp add: position_derived_def sat0_def)
  from wr de full_turn_identity [OF wr] show ?thesis by blast
qed

text \<open>
  Claim C9, as stated, fails: no error is raised for a negative count or a non-positive
  altitude. A count of \<open>-1\<close> with altitude 0 returns the empty list, and a count of 1
  with altitude \<open>-100\<close> returns one satellite of radius 6271.
\<close>

theorem generate_no_validation_counterexample:
  "generate_satellites_outcome rnd0 0 (- 1) 0 ''LEO'' \<noteq> Inl InvalidConfiguration \<and>
   generate_satellites_outcome rnd0 0 (- 1) 0 ''LEO'' = Inr ([], 0) \<and>
   generate_satellites_outcome rnd0 0 1 (- 100) ''GEO'' =
     Inr ([\<lparr> sat_id = ''GEO_1'', sat_type = ''GEO'', sat_theta = 0, sat_phi = 0,
              sat_r = 6271, sat_x = 0, sat_y = 0, sat_z = 6271 \<rparr>], 2)"
  by (simp add: generate_satellites_outcome_def generate_satellites_def new_sat_def Let_def
      uniform_def radians_def rnd0_def EARTH_RADIUS_def str_nat.simps)

text \<open>
  Claim C9, amended. \<^verbatim>\<open>generate_satellites\<close> checks nothing and never raises: for
  every count and every altitude it returns a list of \<open>max count 0\<close> satellites, each of
  radius \<open>EARTH_RADIUS + altitude\<close> and of the given type, after two draws per satellite.
  A count of 0 yields the empty list, and so does every negative count.
\<close>

theorem generate_never_raises:
  "generate_satellites_outcome rnd k num altitude label_prefix =
     Inr (generate_satellites rnd k num altitude label_prefix) \<and>
   length (fst (generate_satellites rnd k num altitude label_prefix)) = nat num \<and>
   snd (generate_satellites rnd k num altitude label_prefix) = k + 2 * nat num \<and>
   list_all (\<lambda>s. sat_r s = EARTH_RADIUS + altitude \<and> sat_type s = label_prefix)
     (fst (generate_satellites rnd k num altitude label_prefix)) \<and>
   fst (generate_satellites rnd k 0 altitude label_prefix) = [] \<and>
   fst (generate_satellites rnd k (- int n) altitude label_prefix) = []"
proof (intro conjI)
  show "generate_satellites_outcome rnd k num altitude label_prefix =
     Inr (generate_satellites rnd k num altitude label_prefix)"
    by (simp add: generate_satellites_outcome_def)
  show "length (fst (generate_satellites rnd k num altitude label_prefix)) = nat num"
    by (rule generate_satellites_length)
  show "snd (generate_satellites rnd k num altitude label_prefix) = k + 2 * nat num"
    by (simp add: generate_satellites_def generate_loop_count)
  show "list_all (\<lambda>s. sat_r s = EARTH_RADIUS + altitude \<and> sat_type s = label_prefix)
     (fst (generate_satellites rnd k num altitude label_prefix))"
    by (rule generate_satellites_all) (simp add: new_sat_fields)
  show "fst (generate_satellites rnd k 0 altitude label_prefix) = []"
    by (simp add: generate_satellites_def)
  show "fst (generate_satellites rnd k (- int n) altitude label_prefix) = []"
    by (simp add: generate_satellites_def)
qed

text \<open>
  Claim C10. Every call of \<^verbatim>\<open>make_figure\<close>, whatever the threshold, the click data and
  the preset, and every call of the callback, whatever fired it, returns the population
  advanced by \<^verbatim>\<open>np.radians(0.5)\<close>: every azimuth becomes
  \<open>(phi + \<pi>/360) mod 2\<pi>\<close>, which differs from \<open>phi\<close>. The call either raises
  \<^verbatim>\<open>KeyError\<close> or returns a figure whose first three traces show the advanced
  population, so no figure is built from the population as it was.
\<close>

theorem make_figure_always_advances:
  "snd (make_figure sats threshold clickData preset) = update_positions sats (radians 0.5) \<and>
   snd (update_graph sats n_intervals clickData threshold preset) =
     update_positions sats (radians 0.5) \<and>
   map sat_phi (update_positions sats (radians 0.5)) =
     map (\<lambda>s. py_mod (sat_phi s + pi / 360) (2 * pi)) sats \<and>
   list_all2 (\<lambda>s s'. sat_phi s' \<noteq> sat_phi s) sats
     (snd (make_figure sats threshold clickData preset)) \<and>
   (case fst (make_figure sats threshold clickData preset) of
      Inl e \<Rightarrow> e = KeyError
    | Inr (fig, msg) \<Rightarrow>
        (let shown = update_positions sats (radians 0.5);
             leo = filter (\<lambda>s. sat_type s = ''LEO'') shown;
             geo = filter (\<lambda>s. sat_type s = ''GEO'') shown
         in take 3 (fig_data fig) =
              [Surface,
               Markers ''LEO Satellites''
                 (map sat_x leo) (map sat_y leo) (map sat_z leo) (map sat_id leo),
               Markers ''GEO Satellites''
                 (map sat_x geo) (map sat_y geo) (map sat_z geo) (map sat_id geo)]))"
proof (intro conjI)
  show "snd (make_figure sats threshold clickData preset) = update_positions sats (radians 0.5)"
    by (rule snd_make_figure)
  show "snd (update_graph sats n_intervals clickData threshold preset) =
     update_positions sats (radians 0.5)"
    by (simp only: update_graph_def snd_make_figure)
  show "map sat_phi (update_positions sats (radians 0.5)) =
     map (\<lambda>s. py_mod (sat_phi s + pi / 360) (2 * pi)) sats"
    by (simp add: update_positions_map advance_sat_fields radians_def)
  show "list_all2 (\<lambda>s s'. sat_phi s' \<noteq> sat_phi s) sats
     (snd (make_figure sats threshold clickData preset))"
    by (simp add: snd_make_figure update_positions_map list_all2_map2 list_all2_same
        advance_sat_fields radians_def half_degree_moves)
  show "case fst (make_figure sats threshold clickData preset) of
      Inl e \<Rightarrow> e = KeyError
    | Inr (fig, msg) \<Rightarrow>
        (let shown = update_positions sats (radians 0.5);
             leo = filter (\<lambda>s. sat_type s = ''LEO'') shown;
             geo = filter (\<lambda>s. sat_type s = ''GEO'') shown
         in take 3 (fig_data fig) =
              [Surface,
               Markers ''LEO Satellites''
                 (map sat_x leo) (map sat_y leo) (map sat_z leo) (map sat_id leo),
               Markers ''GEO Satellites''
                 (map sat_x geo) (map sat_y geo) (map sat_z geo) (map sat_id geo)])"
    unfolding make_figure_def
    by (simp add: Let_def split: option.split list.split)
qed

end
